theory Spec2Isabelle
  imports Complex_Main
begin

section \<open>Python values and exceptions\<close>

text \<open>
  The three modules compute with Python floats. The embedding idealises a float as a
  \<^typ>\<open>real\<close> and a Python int as an \<^typ>\<open>int\<close>, and keeps every place where the
  interpreter would stop: a raised exception is the \<open>Inl\<close> of a result.

  \<open>NonReal\<close> is not a Python exception. It marks the runs in which a thickness or a
  velocity leaves real arithmetic without raising: a negative float raised to a fractional
  power (Python answers with a complex number) and a \<open>numpy.float64\<close> division by
  zero whose quotient goes into such a quantity (numpy answers with \<open>inf\<close> or
  \<open>nan\<close> and a warning). The embedding stops there and says nothing about what the
  program does next with such a value. Where the quotient is only tested or printed (the
  variables \<open>error\<close> and \<open>check\<close> of \<open>weightvessels.py\<close>) the run goes on
  with real values, and the quotient is kept as a \<open>float_value\<close>.
\<close>

datatype error =
    ZeroDivisionError
  | ValueError string
  | UnboundLocalError string
  | NonReal

definition bind_r :: "error + 'a \<Rightarrow> ('a \<Rightarrow> error + 'b) \<Rightarrow> error + 'b" where
  "bind_r r f = (case r of Inl e \<Rightarrow> Inl e | Inr v \<Rightarrow> f v)"

text \<open>Float division \<open>a / b\<close>.\<close>

definition py_div :: "real \<Rightarrow> real \<Rightarrow> error + real" where
  "py_div a b = (if b = 0 then Inl ZeroDivisionError else Inr (a / b))"

text \<open>
  Float power \<open>x ** y\<close> with a float exponent. The sources only use the fractional
  exponents \<open>1/3\<close>, \<open>-1/3\<close>, \<open>0.5\<close>, \<open>1/2\<close> and \<open>0.4\<close>, so a negative base
  always gives a complex number.
\<close>

definition py_pow :: "real \<Rightarrow> real \<Rightarrow> error + real" where
  "py_pow x y =
     (if 0 < x then Inr (x powr y)
      else if x = 0 then
        (if 0 < y then Inr 0 else if y = 0 then Inr 1 else Inl ZeroDivisionError)
      else Inl NonReal)"

text \<open>\<open>math.sqrt\<close> raises \<open>ValueError\<close> on a negative argument.\<close>

definition math_sqrt :: "real \<Rightarrow> error + real" where
  "math_sqrt x = (if x < 0 then Inl (ValueError ''math domain error'') else Inr (sqrt x))"

section \<open>Shell and tube heat exchanger (\<open>shellandtubeHE.py\<close>)\<close>

definition estimate_tube_number :: "real \<Rightarrow> real \<Rightarrow> real \<Rightarrow> int \<Rightarrow> int \<Rightarrow> error + int" where
  "estimate_tube_number heat_transfer_area tube_outer_diameter length' n min_tubes =
     (let tube_surface_area_per_meter = pi * tube_outer_diameter;
          tube_surface_area = tube_surface_area_per_meter * length'
      in bind_r (py_div heat_transfer_area tube_surface_area) (\<lambda>q.
           let total = \<lceil>q\<rceil>;
               total = (if total > 1 \<and> total < min_tubes then min_tubes else total)
           in if total > n then Inr 0 else Inr total))"

definition calculate_shell_diameter :: "int \<Rightarrow> real \<Rightarrow> string \<Rightarrow> real \<Rightarrow> error + real" where
  "calculate_shell_diameter num_tubes tube_outer_diameter pitch_type min_shell_diameter =
     bind_r
       (if pitch_type = ''t'' then Inr 1.1
        else if pitch_type = ''s'' then Inr 1.25
        else Inl (ValueError ''Invalid pitch type. Use 't' for triangular or 's' for square.''))
       (\<lambda>pitch_factor.
          let pitch = tube_outer_diameter * pitch_factor
          in bind_r (math_sqrt ((of_int num_tubes * pitch\<^sup>2) / pi)) (\<lambda>tube_bundle_diameter.
               let shell_diameter = tube_bundle_diameter * 1.3;
                   shell_diameter = max shell_diameter min_shell_diameter
               in Inr shell_diameter))"

text \<open>
  \<open>calculate_shelltubeexchanger_weight\<close> divides only under the guard
  \<open>baffle_spacing > 0\<close>, so it cannot raise; it returns the tuple
  \<open>(total_weight, shell_weight, tube_weight)\<close>.
\<close>

definition calculate_shelltubeexchanger_weight ::
  "real \<Rightarrow> real \<Rightarrow> real \<Rightarrow> int \<Rightarrow> real \<Rightarrow> real \<Rightarrow> real \<Rightarrow> real \<Rightarrow> real \<Rightarrow> real \<Rightarrow> real \<times> real \<times> real" where
  "calculate_shelltubeexchanger_weight shell_diameter tube_length tube_outer_diameter num_tubes
       baffle_spacing shell_thickness tube_thickness baffle_thickness
       shell_steel_density tube_steel_density =
     (let shell_inner_diameter = shell_diameter - 2 * shell_thickness;
          shell_volume = pi * (shell_diameter\<^sup>2 - shell_inner_diameter\<^sup>2) / 4 * tube_length;
          tube_inner_diameter = tube_outer_diameter - 2 * tube_thickness;
          tube_volume =
            of_int num_tubes * pi * (tube_outer_diameter\<^sup>2 - tube_inner_diameter\<^sup>2) / 4
              * tube_length;
          baffle_weight =
            (if baffle_spacing > 0 \<and> baffle_spacing < tube_length then
               let baffle_count = \<lfloor>tube_length / baffle_spacing\<rfloor>;
                   baffle_area = shell_inner_diameter * shell_inner_diameter * pi / 4;
                   baffle_volume = baffle_area * baffle_thickness * of_int baffle_count
               in baffle_volume * shell_steel_density
             else 0);
          shell_weight = shell_volume * shell_steel_density + baffle_weight;
          tube_weight = tube_volume * tube_steel_density;
          total_weight = shell_weight + tube_weight + baffle_weight
      in (total_weight, shell_weight, tube_weight))"

section \<open>Gas-liquid separator (\<open>gasliquidsep.py\<close>)\<close>

text \<open>\<open>x ** -1\<close>: a float raised to the int \<open>-1\<close>.\<close>

definition py_reciprocal :: "real \<Rightarrow> error + real" where
  "py_reciprocal x = (if x = 0 then Inl ZeroDivisionError else Inr (inverse x))"

text \<open>Lines 56 to 61: the terminal velocity \<open>u_t\<close> of a droplet.\<close>

definition terminal_velocity :: "real \<Rightarrow> real \<Rightarrow> real \<Rightarrow> real \<Rightarrow> error + real" where
  "terminal_velocity rho_vapor rho_liquid viscosity_gas D_sphere =
     (let g = 9.81 in
      bind_r (py_div (rho_vapor * (rho_liquid - rho_vapor) * g) (viscosity_gas\<^sup>2)) (\<lambda>a.
      bind_r (py_pow a (1 / 3)) (\<lambda>a3.
        let D_stern = D_sphere * a3 in
        bind_r (py_div 18 (D_stern\<^sup>2)) (\<lambda>t1.
        bind_r (py_pow D_stern 0.5) (\<lambda>r.
        bind_r (py_div 0.591 r) (\<lambda>t2.
        bind_r (py_reciprocal (t1 + t2)) (\<lambda>u_t_stern.
        bind_r (py_div (rho_vapor\<^sup>2) (viscosity_gas * (rho_liquid - rho_vapor) * g)) (\<lambda>b.
        bind_r (py_pow b (- 1 / 3)) (\<lambda>b3.
          Inr (u_t_stern * b3))))))))))"

text \<open>
  The function returns the tuple \<open>(D_vessel, D_volume, hold_up_time, gas_velocity)\<close>.
\<close>

definition gas_liquid_separator_sizing ::
  "real \<Rightarrow> real \<Rightarrow> real \<Rightarrow> real \<Rightarrow> real \<Rightarrow> real \<Rightarrow> real \<Rightarrow> error + real \<times> real \<times> real \<times> real" where
  "gas_liquid_separator_sizing rho_vapor rho_liquid gas_flowrate liquid_flowrate viscosity_gas
       h_d_ratio D_sphere =
     bind_r (terminal_velocity rho_vapor rho_liquid viscosity_gas D_sphere) (\<lambda>u_t.
     bind_r (py_div (4 * gas_flowrate) (pi * u_t)) (\<lambda>q.
     bind_r (py_pow q (1 / 2)) (\<lambda>D_vessel.
     bind_r (py_div (4 * gas_flowrate) (pi * D_vessel\<^sup>2)) (\<lambda>gas_velocity.
       let D_length = h_d_ratio * D_vessel;
           D_volume = pi / 4 * D_vessel\<^sup>2 * D_length
       in bind_r (py_div (pi * (0.1 * D_length) * D_vessel\<^sup>2) (4 * liquid_flowrate)) (\<lambda>h.
            let hold_up_time = h / 3600
            in Inr (D_vessel, D_volume, hold_up_time, gas_velocity))))))"

section \<open>Vertical vessel weight (\<open>weightvessels.py\<close>)\<close>

text \<open>
  A run of \<open>vertical_vessels_weight\<close> has three outcomes: it returns a weight
  (\<open>Some (Inr w)\<close>), it raises (\<open>Some (Inl e)\<close>), or one of its two \<open>while\<close> loops
  never ends (\<open>None\<close>). The \<open>print\<close> calls of the source change no value and are left
  out.
\<close>

definition bind_run :: "(error + 'a) option \<Rightarrow> ('a \<Rightarrow> (error + 'b) option) \<Rightarrow> (error + 'b) option" where
  "bind_run m f = (case m of None \<Rightarrow> None | Some (Inl e) \<Rightarrow> Some (Inl e) | Some (Inr v) \<Rightarrow> f v)"

definition kg_m3_to_lb_in3 :: real where "kg_m3_to_lb_in3 = 0.000036127298147753"
definition m_to_inch :: real where "m_to_inch = 39.3701"
definition kPa_to_psig :: real where "kPa_to_psig = 0.145038"
definition kg_to_lb :: real where "kg_to_lb = 2.20462"

text \<open>
  Lines 40 to 45. A name that no branch assigns stays unbound (\<open>None\<close>). The argument
  of \<open>np.log\<close> is above \<open>34.5 * 0.145038\<close> where it is evaluated.
\<close>

definition design_pressure :: "real \<Rightarrow> real option" where
  "design_pressure lowest_pressure =
     (if lowest_pressure \<le> 34.5 then Some 10.0
      else if lowest_pressure \<le> 6895 then
        Some (exp (0.60608 + 0.91615 * ln (lowest_pressure * kPa_to_psig)
                   + 0.0015655 * (ln (lowest_pressure * kPa_to_psig))\<^sup>2))
      else if lowest_pressure \<ge> 6895 then Some (1.1 * lowest_pressure * kPa_to_psig)
      else None)"

text \<open>
  \<open>np.exp\<close> returns a \<open>numpy.float64\<close>, the other two branches a Python float. A
  division by zero raises \<open>ZeroDivisionError\<close> between Python floats and gives
  \<open>inf\<close> or \<open>nan\<close> when an operand is a \<open>numpy.float64\<close>.
\<close>

definition design_pressure_is_numpy :: "real \<Rightarrow> bool" where
  "design_pressure_is_numpy lowest_pressure = (\<not> lowest_pressure \<le> 34.5 \<and> lowest_pressure \<le> 6895)"

datatype float_value = Finite real | Infinity | NotANumber

text \<open>
  The quotient \<open>a / b\<close>; \<open>numpy\<close> says whether an operand is a
  \<open>numpy.float64\<close>. The sign of an infinity is not kept: the source only takes its
  absolute value or prints a warning on it.
\<close>

definition float_quotient :: "bool \<Rightarrow> real \<Rightarrow> real \<Rightarrow> error + float_value" where
  "float_quotient numpy a b =
     (if b \<noteq> 0 then Inr (Finite (a / b))
      else if numpy then Inr (if a = 0 then NotANumber else Infinity)
      else Inl ZeroDivisionError)"

text \<open>A quotient that goes on into a thickness.\<close>

definition float_div :: "bool \<Rightarrow> real \<Rightarrow> real \<Rightarrow> error + real" where
  "float_div numpy a b =
     bind_r (float_quotient numpy a b)
       (\<lambda>v. case v of Finite x \<Rightarrow> Inr x | Infinity \<Rightarrow> Inl NonReal | NotANumber \<Rightarrow> Inl NonReal)"

text \<open>
  The loop test \<open>abs(error) > 0.001\<close>: true on an infinity, false on \<open>nan\<close> (every
  comparison with \<open>nan\<close> is false).
\<close>

definition exceeds_tolerance :: "float_value \<Rightarrow> bool" where
  "exceeds_tolerance err =
     (case err of Finite e \<Rightarrow> \<bar>e\<bar> > 0.001 | Infinity \<Rightarrow> True | NotANumber \<Rightarrow> False)"

definition design_temp :: "real \<Rightarrow> real" where
  "design_temp highest_temp = (highest_temp - 273.15) * 9 / 5 + 32.0 + 50.0"

definition E_modulus :: "real \<Rightarrow> real" where
  "E_modulus dt =
     (if dt < 200.0 then 30.2 * 10 ^ 6
      else if dt < 400.0 then 29.5 * 10 ^ 6
      else if dt < 650.0 then 28.3 * 10 ^ 6
      else 26.0 * 10 ^ 6)"

definition allowable_stress :: "real \<Rightarrow> real option" where
  "allowable_stress dt =
     (if dt \<le> 750 then Some 15000
      else if dt \<le> 800 then Some 14750
      else if dt \<le> 850 then Some 14200
      else if dt \<le> 900 then Some 13100
      else None)"

text \<open>
  Line 80, the update of \<open>tE\<close> in the branch \<open>lowest_pressure >= 101\<close>. All its
  operands are Python floats.
\<close>

definition hp_tE :: "real \<Rightarrow> real \<Rightarrow> real \<Rightarrow> real \<Rightarrow> error + real" where
  "hp_tE s diameter tangent_tangent_length tE1 =
     py_div (0.22 * (((diameter * m_to_inch) + tE1) + 18) * (tangent_tangent_length * m_to_inch)\<^sup>2)
            (s * ((diameter * m_to_inch) + tE1)\<^sup>2)"

text \<open>
  Lines 79 to 82, the loop of that branch. Its state is \<open>(tE1, error, tE)\<close>; \<open>tE\<close> is
  unbound before the first pass. The numerator of line 80 is evaluated before
  \<open>allowable_stress\<close> is read, and cannot raise.
\<close>

partial_function (option) hp_while ::
  "real option \<Rightarrow> real \<Rightarrow> real \<Rightarrow> real \<Rightarrow> real \<Rightarrow> real option \<Rightarrow> (error + real) option" where
  "hp_while stress diameter tangent_tangent_length tE1 err tE =
     (if \<bar>err\<bar> > 0.001 then
        (case stress of
           None \<Rightarrow> Some (Inl (UnboundLocalError ''allowable_stress''))
         | Some s \<Rightarrow>
             (case hp_tE s diameter tangent_tangent_length tE1 of
                Inl e \<Rightarrow> Some (Inl e)
              | Inr tE' \<Rightarrow>
                  (case py_div (tE1 - tE') tE1 of
                     Inl e \<Rightarrow> Some (Inl e)
                   | Inr err' \<Rightarrow>
                       hp_while stress diameter tangent_tangent_length tE' err' (Some tE'))))
      else (case tE of None \<Rightarrow> Some (Inl (UnboundLocalError ''tE'')) | Some t \<Rightarrow> Some (Inr t)))"

text \<open>
  Line 87, the update of \<open>tE\<close> in the branch \<open>lowest_pressure <= 101\<close>. \<open>numpy\<close> says
  whether \<open>design_pressure\<close> is a \<open>numpy.float64\<close>.
\<close>

definition lp_tE :: "bool \<Rightarrow> real \<Rightarrow> real \<Rightarrow> real \<Rightarrow> real \<Rightarrow> real \<Rightarrow> error + real" where
  "lp_tE numpy dp E diameter tangent_tangent_length tE1 =
     bind_r (float_div numpy (dp * (tangent_tangent_length * m_to_inch))
                             (E * ((diameter * m_to_inch) + tE1))) (\<lambda>q.
     bind_r (py_pow q 0.4) (\<lambda>q4.
       Inr (1.3 * ((diameter * m_to_inch) + tE1) * q4)))"

text \<open>
  Lines 86 to 89, the loop of that branch. With a \<open>numpy.float64\<close> design pressure
  the quotient of line 88 does not raise on \<open>tE1 = 0\<close>: it is \<open>nan\<close> for \<open>0 / 0\<close>,
  which ends the loop, and an infinity otherwise.
\<close>

partial_function (option) lp_while ::
  "bool \<Rightarrow> real \<Rightarrow> real \<Rightarrow> real \<Rightarrow> real \<Rightarrow> real \<Rightarrow> float_value \<Rightarrow> real option
     \<Rightarrow> (error + real) option" where
  "lp_while numpy dp E diameter tangent_tangent_length tE1 err tE =
     (if exceeds_tolerance err then
        (case lp_tE numpy dp E diameter tangent_tangent_length tE1 of
           Inl e \<Rightarrow> Some (Inl e)
         | Inr tE' \<Rightarrow>
             (case float_quotient numpy (tE1 - tE') tE1 of
                Inl e \<Rightarrow> Some (Inl e)
              | Inr err' \<Rightarrow>
                  lp_while numpy dp E diameter tangent_tangent_length tE' err' (Some tE')))
      else (case tE of None \<Rightarrow> Some (Inl (UnboundLocalError ''tE'')) | Some t \<Rightarrow> Some (Inr t)))"

text \<open>
  Lines 73 to 97: the wall thickness \<open>t_total\<close> before the minimum of line 100 is
  applied. The quotient \<open>check\<close> of line 90 is only compared with 0.05 to print a
  warning.
\<close>

definition wall_thickness :: "real \<Rightarrow> real \<Rightarrow> real \<Rightarrow> real \<Rightarrow> (error + real) option" where
  "wall_thickness lowest_pressure highest_temp diameter tangent_tangent_length =
     (let dp = design_pressure lowest_pressure;
          numpy = design_pressure_is_numpy lowest_pressure;
          dt = design_temp highest_temp;
          E = E_modulus dt;
          stress = allowable_stress dt;
          tE1 = 0.25;
          err = 1
      in if lowest_pressure \<ge> 101 then
           bind_run (hp_while stress diameter tangent_tangent_length tE1 err None) (\<lambda>tE.
             case dp of
               None \<Rightarrow> Some (Inl (UnboundLocalError ''design_pressure''))
             | Some p \<Rightarrow>
                 (case stress of
                    None \<Rightarrow> Some (Inl (UnboundLocalError ''allowable_stress''))
                  | Some s \<Rightarrow>
                      bind_run (Some (float_div numpy (p * (diameter * m_to_inch))
                                                      (2 * s - 1.2 * p))) (\<lambda>tp.
                        Some (Inr ((tp + tE + tp) / 2)))))
         else if lowest_pressure \<le> 101 then
           (case dp of
              None \<Rightarrow> Some (Inl (UnboundLocalError ''design_pressure''))
            | Some p \<Rightarrow>
                bind_run (lp_while numpy p E diameter tangent_tangent_length tE1 (Finite err) None)
                  (\<lambda>tE.
                bind_run (Some (float_quotient numpy tE (diameter * m_to_inch))) (\<lambda>check.
                  let tEC = (tangent_tangent_length * m_to_inch)
                              * (0.18 * (diameter * m_to_inch) - 2.2) * (1 / 10 ^ 5) - 0.19
                  in if tEC > 0 then Some (Inr (tEC + tE + 0.125))
                     else Some (Inr (tE + 0.125)))))
         else Some (Inl (UnboundLocalError ''t_total'')))"

definition vertical_vessels_weight ::
  "real \<Rightarrow> real \<Rightarrow> real \<Rightarrow> real \<Rightarrow> real \<Rightarrow> (error + real) option" where
  "vertical_vessels_weight lowest_pressure highest_temp diameter tangent_tangent_length
       material_density =
     bind_run (wall_thickness lowest_pressure highest_temp diameter tangent_tangent_length)
       (\<lambda>t_total.
          let t_total = (if t_total < 0.25 then 0.25 else t_total);
              weight = pi * t_total * (material_density * kg_m3_to_lb_in3)
                         * ((diameter * m_to_inch) + t_total)
                         * ((tangent_tangent_length * m_to_inch) + 0.8 * (diameter * m_to_inch));
              weight = weight / kg_to_lb
          in Some (Inr weight))"

section \<open>Properties of the heat exchanger functions\<close>

lemma estimate_tube_number_raw:
  assumes "tube_outer_diameter * length' \<noteq> 0"
    and "raw = \<lceil>heat_transfer_area / (pi * tube_outer_diameter * length')\<rceil>"
  shows "estimate_tube_number heat_transfer_area tube_outer_diameter length' n min_tubes =
           Inr (let total = (if raw > 1 \<and> raw < min_tubes then min_tubes else raw)
                in if total > n then 0 else total)"
proof -
  have "pi * tube_outer_diameter * length' \<noteq> 0" using assms(1) by simp
  then show ?thesis
    unfolding estimate_tube_number_def py_div_def bind_r_def Let_def assms(2)
    by (simp del: ceiling_less_cancel less_ceiling_iff ceiling_less_iff)
qed

text \<open>
  Claim C6. Let \<open>raw\<close> be \<open>ceil(area / (pi * tubeOD * length))\<close>; the tube
  surface is not zero, so that the quotient exists (on a zero surface the division raises
  \<open>ZeroDivisionError\<close>). \<open>estimate_tube_number\<close> returns \<open>raw\<close> when it is 0,
  exactly 1 or at least \<open>min_tubes\<close>, and not above the maximum \<open>n\<close>; it returns
  \<open>min_tubes\<close> when \<open>raw\<close> lies strictly between 1 and \<open>min_tubes\<close> and
  \<open>min_tubes\<close> is not above \<open>n\<close>; it returns the sentinel 0 when the possibly raised
  count is above \<open>n\<close>. A raw count of exactly 1 is never raised, and an area of 0
  gives 0.
\<close>

theorem estimate_tube_number_cases:
  assumes "tube_outer_diameter * length' \<noteq> 0"
    and "raw = \<lceil>heat_transfer_area / (pi * tube_outer_diameter * length')\<rceil>"
    and "r = estimate_tube_number heat_transfer_area tube_outer_diameter length' n min_tubes"
  shows "((raw = 0 \<or> raw = 1 \<or> min_tubes \<le> raw) \<and> raw \<le> n \<longrightarrow> r = Inr raw)
       \<and> (1 < raw \<and> raw < min_tubes \<and> min_tubes \<le> n \<longrightarrow> r = Inr min_tubes)
       \<and> ((if 1 < raw \<and> raw < min_tubes then min_tubes else raw) > n \<longrightarrow> r = Inr 0)
       \<and> (raw = 1 \<longrightarrow> r = Inr (if 1 > n then 0 else 1))
       \<and> (heat_transfer_area = 0 \<longrightarrow> r = Inr 0)"
proof -
  have r: "r = Inr (let total = (if raw > 1 \<and> raw < min_tubes then min_tubes else raw)
                    in if total > n then 0 else total)"
    unfolding assms(3) by (rule estimate_tube_number_raw [OF assms(1,2)])
  have "heat_transfer_area = 0 \<Longrightarrow> raw = 0" using assms(2) by simp
  then show ?thesis unfolding r Let_def by auto
qed

lemma ceiling_four_over_pi: "\<lceil>4 / pi\<rceil> = (2::int)"
proof -
  have "1 < 4 / pi" using pi_less_4 by simp
  moreover have "4 / pi \<le> 2" using pi_ge_two by (simp add: field_simps)
  ultimately show ?thesis by (simp add: ceiling_eq_iff)
qed

lemma raw_count_example: "(2::int) = \<lceil>(0.4::real) / (pi * 0.02 * 5)\<rceil>"
proof -
  have "(0.4::real) / (pi * 0.02 * 5) = 4 / pi" by simp
  then show ?thesis using ceiling_four_over_pi by simp
qed

theorem estimate_tube_number_cases_witness:
  "(0.02::real) * 5 \<noteq> 0 \<and> (2::int) = \<lceil>(0.4::real) / (pi * 0.02 * 5)\<rceil>
     \<and> estimate_tube_number 0.4 0.02 5 100 20 = Inr 20"
proof -
  have nz: "(0.02::real) * 5 \<noteq> 0" by simp
  have "estimate_tube_number 0.4 0.02 5 100 20 = Inr 20"
    using estimate_tube_number_cases [OF nz raw_count_example refl, where n = 100 and min_tubes = 20] by simp
  then show ?thesis using nz raw_count_example by blast
qed

text \<open>
  Claim C10. The raise to \<open>min_tubes\<close> comes before the comparison with the maximum
  \<open>n\<close>: a raw count strictly between 1 and \<open>min_tubes\<close>, with \<open>min_tubes\<close> above
  \<open>n\<close>, gives the sentinel 0, whether or not the raw count itself is above \<open>n\<close>.
\<close>

theorem min_raise_before_max_check:
  assumes "tube_outer_diameter * length' \<noteq> 0"
    and "raw = \<lceil>heat_transfer_area / (pi * tube_outer_diameter * length')\<rceil>"
    and "1 < raw" and "raw < min_tubes" and "n < min_tubes"
  shows "estimate_tube_number heat_transfer_area tube_outer_diameter length' n min_tubes = Inr 0"
  unfolding estimate_tube_number_raw [OF assms(1,2)] using assms(3-5) by simp

theorem min_raise_before_max_check_witness:
  "(0.02::real) * 5 \<noteq> 0 \<and> (2::int) = \<lceil>(0.4::real) / (pi * 0.02 * 5)\<rceil>
     \<and> (1::int) < 2 \<and> (2::int) < 20 \<and> (10::int) < 20 \<and> (2::int) \<le> 10
     \<and> estimate_tube_number 0.4 0.02 5 10 20 = Inr 0"
proof -
  have nz: "(0.02::real) * 5 \<noteq> 0" by simp
  have "estimate_tube_number 0.4 0.02 5 10 20 = Inr 0"
    by (rule min_raise_before_max_check [OF nz raw_count_example]) simp_all
  then show ?thesis using nz raw_count_example by simp
qed

lemma bundle_area_nonneg: "0 \<le> num_tubes \<Longrightarrow> \<not> of_int num_tubes * pitch\<^sup>2 / pi < (0::real)"
  by (simp add: not_less)

text \<open>
  Claim C8. A pitch type other than \<open>'t'\<close> and \<open>'s'\<close> raises \<open>ValueError\<close>.
  Otherwise, for a tube count that is not negative, the result is
  \<open>max (1.3 * sqrt (num_tubes * (tube_outer_diameter * pitch_factor)\<^sup>2 / pi))
  min_shell_diameter\<close> with the factor 1.1 for \<open>'t'\<close> and 1.25 for \<open>'s'\<close>, which is
  never below \<open>min_shell_diameter\<close>.
\<close>

theorem shell_diameter_pitch:
  "(pitch_type \<noteq> ''t'' \<and> pitch_type \<noteq> ''s'' \<longrightarrow>
      calculate_shell_diameter num_tubes tube_outer_diameter pitch_type min_shell_diameter =
        Inl (ValueError ''Invalid pitch type. Use 't' for triangular or 's' for square.''))
   \<and> ((pitch_type = ''t'' \<or> pitch_type = ''s'') \<and> 0 \<le> num_tubes \<longrightarrow>
      (let pitch_factor = (if pitch_type = ''t'' then 1.1 else 1.25);
           d = max (1.3 * sqrt (of_int num_tubes * (tube_outer_diameter * pitch_factor)\<^sup>2 / pi))
                   min_shell_diameter
       in calculate_shell_diameter num_tubes tube_outer_diameter pitch_type min_shell_diameter = Inr d
          \<and> min_shell_diameter \<le> d))"
  using bundle_area_nonneg [of num_tubes]
  by (auto simp: calculate_shell_diameter_def bind_r_def math_sqrt_def Let_def)

theorem shell_diameter_pitch_witness:
  "calculate_shell_diameter 100 0.02 ''x'' 0.15 =
      Inl (ValueError ''Invalid pitch type. Use 't' for triangular or 's' for square.'')
   \<and> calculate_shell_diameter 0 0.02 ''s'' 0.15 = Inr 0.15
   \<and> calculate_shell_diameter 100 0.02 ''t'' 0.15
        = Inr (max (1.3 * sqrt (100 * (0.02 * 1.1)\<^sup>2 / pi)) 0.15)"
  using shell_diameter_pitch [of "''x''" 100 "0.02" "0.15"]
    shell_diameter_pitch [of "''s''" 0 "0.02" "0.15"]
    shell_diameter_pitch [of "''t''" 100 "0.02" "0.15"]
  by (simp add: Let_def)

text \<open>
  Claim C4. With \<open>0 < baffle_spacing < tube_length\<close> the weight of
  \<open>floor (tube_length / baffle_spacing)\<close> full disks of the shell's inner diameter, of
  thickness \<open>baffle_thickness\<close> and of the shell's steel density, is added once into
  the returned \<open>shell_weight\<close> and once more into \<open>total_weight\<close>. Otherwise the
  baffle weight is 0 and \<open>total_weight = shell_weight + tube_weight\<close>.
\<close>

theorem exchanger_weight_counts_baffles_twice:
  "let shell_inner_diameter = shell_diameter - 2 * shell_thickness;
       shell_steel = pi * (shell_diameter\<^sup>2 - shell_inner_diameter\<^sup>2) / 4 * tube_length
                       * shell_steel_density;
       baffles = of_int \<lfloor>tube_length / baffle_spacing\<rfloor>
                   * (pi * shell_inner_diameter\<^sup>2 / 4 * baffle_thickness) * shell_steel_density;
       tubes = of_int num_tubes * (pi * (tube_outer_diameter\<^sup>2
                   - (tube_outer_diameter - 2 * tube_thickness)\<^sup>2) / 4 * tube_length)
                   * tube_steel_density
   in case calculate_shelltubeexchanger_weight shell_diameter tube_length tube_outer_diameter
             num_tubes baffle_spacing shell_thickness tube_thickness baffle_thickness
             shell_steel_density tube_steel_density of
        (total_weight, shell_weight, tube_weight) \<Rightarrow>
          tube_weight = tubes
          \<and> (0 < baffle_spacing \<and> baffle_spacing < tube_length \<longrightarrow>
               shell_weight = shell_steel + baffles
               \<and> total_weight = shell_weight + tube_weight + baffles
               \<and> total_weight = shell_steel + tube_weight + 2 * baffles)
          \<and> (baffle_spacing \<le> 0 \<or> baffle_spacing \<ge> tube_length \<longrightarrow>
               shell_weight = shell_steel
               \<and> total_weight = shell_weight + tube_weight)"
  by (auto simp: calculate_shelltubeexchanger_weight_def Let_def power2_eq_square)

theorem exchanger_weight_counts_baffles_twice_witness:
  "(0::real) < 0.5 \<and> (0.5::real) < 3 \<and> (3::real) \<ge> 3
   \<and> calculate_shelltubeexchanger_weight 0.5 3 0.02 100 0.5 0.0127 0.00211 0.00635 7850 7850
       = (pi * (0.5\<^sup>2 - (0.5 - 2 * 0.0127)\<^sup>2) / 4 * 3 * 7850
            + 100 * (pi * (0.02\<^sup>2 - (0.02 - 2 * 0.00211)\<^sup>2) / 4 * 3) * 7850
            + 2 * (6 * (pi * (0.5 - 2 * 0.0127)\<^sup>2 / 4 * 0.00635) * 7850),
          pi * (0.5\<^sup>2 - (0.5 - 2 * 0.0127)\<^sup>2) / 4 * 3 * 7850
            + 6 * (pi * (0.5 - 2 * 0.0127)\<^sup>2 / 4 * 0.00635) * 7850,
          100 * (pi * (0.02\<^sup>2 - (0.02 - 2 * 0.00211)\<^sup>2) / 4 * 3) * 7850)
   \<and> calculate_shelltubeexchanger_weight 0.5 3 0.02 100 3 0.0127 0.00211 0.00635 7850 7850
       = (pi * (0.5\<^sup>2 - (0.5 - 2 * 0.0127)\<^sup>2) / 4 * 3 * 7850
            + 100 * (pi * (0.02\<^sup>2 - (0.02 - 2 * 0.00211)\<^sup>2) / 4 * 3) * 7850,
          pi * (0.5\<^sup>2 - (0.5 - 2 * 0.0127)\<^sup>2) / 4 * 3 * 7850,
          100 * (pi * (0.02\<^sup>2 - (0.02 - 2 * 0.00211)\<^sup>2) / 4 * 3) * 7850)"
proof -
  have f: "\<lfloor>(3::real) / 0.5\<rfloor> = 6" by simp
  show ?thesis
    using exchanger_weight_counts_baffles_twice
            [where shell_diameter = "0.5" and shell_thickness = "0.0127" and tube_length = 3
               and baffle_spacing = "0.5" and baffle_thickness = "0.00635"
               and shell_steel_density = 7850 and num_tubes = 100
               and tube_outer_diameter = "0.02" and tube_thickness = "0.00211"
               and tube_steel_density = 7850]
          exchanger_weight_counts_baffles_twice
            [where shell_diameter = "0.5" and shell_thickness = "0.0127" and tube_length = 3
               and baffle_spacing = 3 and baffle_thickness = "0.00635"
               and shell_steel_density = 7850 and num_tubes = 100
               and tube_outer_diameter = "0.02" and tube_thickness = "0.00211"
               and tube_steel_density = 7850]
    unfolding Let_def f
    by (auto split: prod.splits)
qed

section \<open>Properties of the separator sizing\<close>

lemma py_pow_pos: "0 < x \<Longrightarrow> py_pow x y = Inr (x powr y)"
  by (simp add: py_pow_def)

lemma bind_r_Inr: "bind_r (Inr v) f = f v"
  by (simp add: bind_r_def)

lemma terminal_velocity_pos:
  assumes "0 < rho_vapor" "rho_vapor < rho_liquid" "0 < viscosity_gas" "0 < D_sphere"
  shows "\<exists>u_t. terminal_velocity rho_vapor rho_liquid viscosity_gas D_sphere = Inr u_t \<and> 0 < u_t"
proof -
  define a where "a = rho_vapor * (rho_liquid - rho_vapor) * 9.81 / viscosity_gas\<^sup>2"
  define D_stern where "D_stern = D_sphere * a powr (1 / 3)"
  define s where "s = 18 / D_stern\<^sup>2 + 0.591 / D_stern powr 0.5"
  define b where "b = rho_vapor\<^sup>2 / (viscosity_gas * (rho_liquid - rho_vapor) * 9.81)"
  have a: "0 < a" using assms by (simp add: a_def)
  then have D: "0 < D_stern" using assms by (simp add: D_stern_def)
  then have s: "0 < s" by (simp add: s_def add_pos_pos)
  have b: "0 < b" using assms by (simp add: b_def)
  have "terminal_velocity rho_vapor rho_liquid viscosity_gas D_sphere
          = Inr (inverse s * b powr (- 1 / 3))"
  proof -
    have 1: "py_div (rho_vapor * (rho_liquid - rho_vapor) * 9.81) (viscosity_gas\<^sup>2) = Inr a"
      using assms by (simp add: py_div_def a_def)
    have 2: "py_pow a (1 / 3) = Inr (a powr (1 / 3))" using a by (rule py_pow_pos)
    have 3: "py_div 18 ((D_sphere * a powr (1 / 3))\<^sup>2) = Inr (18 / D_stern\<^sup>2)"
      using D by (simp add: py_div_def D_stern_def [symmetric])
    have 4: "py_pow (D_sphere * a powr (1 / 3)) 0.5 = Inr (D_stern powr 0.5)"
      using D py_pow_pos [of D_stern "0.5"] by (simp add: D_stern_def)
    have 5: "py_div 0.591 (D_stern powr 0.5) = Inr (0.591 / D_stern powr 0.5)"
      using D by (simp add: py_div_def)
    have 6: "py_reciprocal (18 / D_stern\<^sup>2 + 0.591 / D_stern powr 0.5) = Inr (inverse s)"
      using s by (simp add: py_reciprocal_def s_def)
    have 7: "py_div (rho_vapor\<^sup>2) (viscosity_gas * (rho_liquid - rho_vapor) * 9.81) = Inr b"
      using assms by (simp add: py_div_def b_def)
    have 8: "py_pow b (- 1 / 3) = Inr (b powr (- 1 / 3))" using b by (rule py_pow_pos)
    show ?thesis
      unfolding terminal_velocity_def Let_def 1 bind_r_Inr 2 3 4 5 6 7 8 ..
  qed
  moreover have "0 < inverse s * b powr (- 1 / 3)" using s b by simp
  ultimately show ?thesis by blast
qed

lemma separator_sizing_value:
  assumes "terminal_velocity rho_vapor rho_liquid viscosity_gas D_sphere = Inr u_t"
    and "0 < u_t" and "0 < gas_flowrate" and "0 < liquid_flowrate"
  shows "\<exists>D_vessel. 0 < D_vessel \<and> D_vessel\<^sup>2 = 4 * gas_flowrate / (pi * u_t) \<and>
           gas_liquid_separator_sizing rho_vapor rho_liquid gas_flowrate liquid_flowrate
               viscosity_gas h_d_ratio D_sphere =
             Inr (D_vessel, pi / 4 * D_vessel\<^sup>2 * (h_d_ratio * D_vessel),
                  pi * (0.1 * (h_d_ratio * D_vessel)) * D_vessel\<^sup>2 / (4 * liquid_flowrate) / 3600,
                  u_t)"
proof -
  define q where "q = 4 * gas_flowrate / (pi * u_t)"
  define D_vessel where "D_vessel = q powr (1 / 2)"
  have q: "0 < q" using assms by (simp add: q_def)
  then have D: "0 < D_vessel" by (simp add: D_vessel_def)
  have D2: "D_vessel\<^sup>2 = q"
    using q by (simp add: D_vessel_def powr_half_sqrt)
  have 1: "py_div (4 * gas_flowrate) (pi * u_t) = Inr q"
    using assms by (simp add: py_div_def q_def)
  have 2: "py_pow q (1 / 2) = Inr D_vessel"
    using q by (simp add: py_pow_pos D_vessel_def)
  have "4 * gas_flowrate / (pi * q) = u_t"
    using assms by (simp add: q_def)
  then have 3: "py_div (4 * gas_flowrate) (pi * D_vessel\<^sup>2) = Inr u_t"
    using q by (simp add: py_div_def D2)
  have 4: "py_div (pi * (0.1 * (h_d_ratio * D_vessel)) * D_vessel\<^sup>2) (4 * liquid_flowrate)
            = Inr (pi * (0.1 * (h_d_ratio * D_vessel)) * D_vessel\<^sup>2 / (4 * liquid_flowrate))"
    using assms by (simp add: py_div_def)
  have "gas_liquid_separator_sizing rho_vapor rho_liquid gas_flowrate liquid_flowrate
               viscosity_gas h_d_ratio D_sphere =
             Inr (D_vessel, pi / 4 * D_vessel\<^sup>2 * (h_d_ratio * D_vessel),
                  pi * (0.1 * (h_d_ratio * D_vessel)) * D_vessel\<^sup>2 / (4 * liquid_flowrate) / 3600,
                  u_t)"
    unfolding gas_liquid_separator_sizing_def assms(1) bind_r_Inr 1 2 3 Let_def 4 ..
  then show ?thesis using D D2 q_def by blast
qed

text \<open>
  Claim C3. For positive densities, flows, viscosity and droplet diameter, with the
  liquid denser than the vapor, the sizing returns, and the gas velocity it returns is the
  terminal velocity \<open>u_t\<close> of lines 59 to 61: the diameter satisfies
  \<open>4 * gas_flowrate / (pi * D_vessel\<^sup>2) = u_t\<close>, and the gas velocity is recomputed
  from that diameter.
\<close>

theorem gas_velocity_is_terminal_velocity:
  assumes "0 < rho_vapor" and "rho_vapor < rho_liquid" and "0 < gas_flowrate"
    and "0 < liquid_flowrate" and "0 < viscosity_gas" and "0 < D_sphere"
  shows "\<exists>u_t D_vessel D_volume hold_up_time.
           terminal_velocity rho_vapor rho_liquid viscosity_gas D_sphere = Inr u_t
         \<and> gas_liquid_separator_sizing rho_vapor rho_liquid gas_flowrate liquid_flowrate
               viscosity_gas h_d_ratio D_sphere = Inr (D_vessel, D_volume, hold_up_time, u_t)
         \<and> 0 < u_t
         \<and> 4 * gas_flowrate / (pi * D_vessel\<^sup>2) = u_t"
proof -
  obtain u_t where u: "terminal_velocity rho_vapor rho_liquid viscosity_gas D_sphere = Inr u_t"
    and pos: "0 < u_t"
    using terminal_velocity_pos [OF assms(1,2,5,6)] by blast
  obtain D_vessel where D: "D_vessel\<^sup>2 = 4 * gas_flowrate / (pi * u_t)"
    and r: "gas_liquid_separator_sizing rho_vapor rho_liquid gas_flowrate liquid_flowrate
               viscosity_gas h_d_ratio D_sphere =
             Inr (D_vessel, pi / 4 * D_vessel\<^sup>2 * (h_d_ratio * D_vessel),
                  pi * (0.1 * (h_d_ratio * D_vessel)) * D_vessel\<^sup>2 / (4 * liquid_flowrate) / 3600,
                  u_t)"
    using separator_sizing_value [OF u pos assms(3,4)] by blast
  have "4 * gas_flowrate / (pi * D_vessel\<^sup>2) = u_t"
    unfolding D using pos assms(3) by simp
  with u r pos show ?thesis by blast
qed

theorem gas_velocity_is_terminal_velocity_witness:
  "(0::real) < 1.2 \<and> (1.2::real) < 1000 \<and> (0::real) < 0.5 \<and> (0::real) < 0.01
   \<and> (0::real) < 0.000018 \<and> (0::real) < 0.0001
   \<and> (\<exists>u_t D_vessel D_volume hold_up_time.
           terminal_velocity 1.2 1000 0.000018 0.0001 = Inr u_t
         \<and> gas_liquid_separator_sizing 1.2 1000 0.5 0.01 0.000018 3 0.0001
              = Inr (D_vessel, D_volume, hold_up_time, u_t)
         \<and> 0 < u_t
         \<and> 4 * 0.5 / (pi * D_vessel\<^sup>2) = u_t)"
proof -
  have h: "(0::real) < 1.2" "(1.2::real) < 1000" "(0::real) < 0.5" "(0::real) < 0.01"
    "(0::real) < 0.000018" "(0::real) < 0.0001" by simp_all
  show ?thesis
    using gas_velocity_is_terminal_velocity [OF h, of 3] h by blast
qed

text \<open>
  Claim C7. Under the same conditions the sizing returns; the vessel diameter it returns
  is the positive root of \<open>D_vessel\<^sup>2 = 4 * gas_flowrate / (pi * u_t)\<close>, with \<open>u_t\<close>
  the terminal velocity of lines 59 to 61, and the hold-up time it returns is
  \<open>pi * (0.1 * D_length) * D_vessel\<^sup>2 / (4 * liquid_flowrate) / 3600\<close> with
  \<open>D_length = h_d_ratio * D_vessel\<close>: one tenth of the returned vessel volume, divided
  by the liquid flow, in hours (the docstring's 60 percent is not what is computed).
\<close>

theorem hold_up_time_ten_percent_of_length:
  assumes "0 < rho_vapor" and "rho_vapor < rho_liquid" and "0 < gas_flowrate"
    and "0 < liquid_flowrate" and "0 < viscosity_gas" and "0 < D_sphere"
  shows "\<exists>u_t D_vessel D_volume hold_up_time gas_velocity.
           terminal_velocity rho_vapor rho_liquid viscosity_gas D_sphere = Inr u_t
         \<and> 0 < u_t
         \<and> D_vessel = sqrt (4 * gas_flowrate / (pi * u_t))
         \<and> 0 < D_vessel
         \<and> D_vessel\<^sup>2 = 4 * gas_flowrate / (pi * u_t)
         \<and> gas_liquid_separator_sizing rho_vapor rho_liquid gas_flowrate liquid_flowrate
               viscosity_gas h_d_ratio D_sphere = Inr (D_vessel, D_volume, hold_up_time, gas_velocity)
         \<and> hold_up_time =
             pi * (0.1 * (h_d_ratio * D_vessel)) * D_vessel\<^sup>2 / (4 * liquid_flowrate) / 3600
         \<and> D_volume = pi / 4 * D_vessel\<^sup>2 * (h_d_ratio * D_vessel)
         \<and> hold_up_time = 0.1 * D_volume / liquid_flowrate / 3600"
proof -
  obtain u_t where u: "terminal_velocity rho_vapor rho_liquid viscosity_gas D_sphere = Inr u_t"
    and pos: "0 < u_t"
    using terminal_velocity_pos [OF assms(1,2,5,6)] by blast
  obtain D_vessel where D: "0 < D_vessel" and D2: "D_vessel\<^sup>2 = 4 * gas_flowrate / (pi * u_t)"
    and r: "gas_liquid_separator_sizing rho_vapor rho_liquid gas_flowrate liquid_flowrate
               viscosity_gas h_d_ratio D_sphere =
             Inr (D_vessel, pi / 4 * D_vessel\<^sup>2 * (h_d_ratio * D_vessel),
                  pi * (0.1 * (h_d_ratio * D_vessel)) * D_vessel\<^sup>2 / (4 * liquid_flowrate) / 3600,
                  u_t)"
    using separator_sizing_value [OF u pos assms(3,4)] by blast
  have "sqrt (D_vessel\<^sup>2) = D_vessel" using D by simp
  then have S: "D_vessel = sqrt (4 * gas_flowrate / (pi * u_t))" unfolding D2 by simp
  have "pi * (0.1 * (h_d_ratio * D_vessel)) * D_vessel\<^sup>2 / (4 * liquid_flowrate) / 3600
          = 0.1 * (pi / 4 * D_vessel\<^sup>2 * (h_d_ratio * D_vessel)) / liquid_flowrate / 3600"
    by simp
  with u pos S D D2 r show ?thesis by blast
qed

theorem hold_up_time_ten_percent_of_length_witness:
  "(0::real) < 1.2 \<and> (1.2::real) < 1000 \<and> (0::real) < 0.5 \<and> (0::real) < 0.01
   \<and> (0::real) < 0.000018 \<and> (0::real) < 0.0001
   \<and> (\<exists>u_t D_vessel D_volume hold_up_time gas_velocity.
           terminal_velocity 1.2 1000 0.000018 0.0001 = Inr u_t
         \<and> 0 < u_t
         \<and> D_vessel = sqrt (4 * 0.5 / (pi * u_t))
         \<and> 0 < D_vessel
         \<and> gas_liquid_separator_sizing 1.2 1000 0.5 0.01 0.000018 3 0.0001
              = Inr (D_vessel, D_volume, hold_up_time, gas_velocity)
         \<and> hold_up_time = pi * (0.1 * (3 * D_vessel)) * D_vessel\<^sup>2 / (4 * 0.01) / 3600
         \<and> hold_up_time = 0.1 * D_volume / 0.01 / 3600)"
proof -
  have h: "(0::real) < 1.2" "(1.2::real) < 1000" "(0::real) < 0.5" "(0::real) < 0.01"
    "(0::real) < 0.000018" "(0::real) < 0.0001" by simp_all
  show ?thesis
    using hold_up_time_ten_percent_of_length [OF h, of 3] h by blast
qed

section \<open>The wall thickness loops\<close>

subsection \<open>The loop of the branch \<open>lowest_pressure >= 101\<close>\<close>

lemma hp_while_exit:
  "\<bar>err\<bar> \<le> 0.001 \<Longrightarrow>
     hp_while stress diameter tangent_tangent_length tE1 err (Some t) = Some (Inr t)"
  by (subst hp_while.simps) simp

lemma hp_while_step:
  assumes "\<bar>err\<bar> > 0.001" and "hp_tE s diameter tangent_tangent_length tE1 = Inr tE'"
    and "tE1 \<noteq> 0"
  shows "hp_while (Some s) diameter tangent_tangent_length tE1 err tE =
           hp_while (Some s) diameter tangent_tangent_length tE' ((tE1 - tE') / tE1) (Some tE')"
  using assms by (subst hp_while.simps) (simp add: py_div_def)

lemma hp_while_unbound_stress:
  "\<bar>err\<bar> > 0.001 \<Longrightarrow> hp_while None diameter tangent_tangent_length tE1 err tE
     = Some (Inl (UnboundLocalError ''allowable_stress''))"
  by (subst hp_while.simps) simp



text \<open>A value the loop returns comes from a step whose relative change is within the tolerance.\<close>

lemma hp_while_returns_converged_aux:
  assumes "hp_while stress diameter tangent_tangent_length t err tE = Some y"
  shows "\<forall>r. y = Inr r \<longrightarrow>
           (\<bar>err\<bar> \<le> 0.001 \<and> tE = Some r)
         \<or> (\<exists>s t1. stress = Some s \<and> t1 \<noteq> 0 \<and> hp_tE s diameter tangent_tangent_length t1 = Inr r
                \<and> \<bar>(t1 - r) / t1\<bar> \<le> 0.001)"
proof (rule hp_while.raw_induct
    [where P = "\<lambda>stress d l t err tE y. \<forall>r. y = Inr r \<longrightarrow>
           (\<bar>err\<bar> \<le> 0.001 \<and> tE = Some r)
         \<or> (\<exists>s t1. stress = Some s \<and> t1 \<noteq> 0 \<and> hp_tE s d l t1 = Inr r
                \<and> \<bar>(t1 - r) / t1\<bar> \<le> 0.001)",
     OF _ assms], goal_cases)
  case (1 hp stress d l t err tE y)
  show ?case
  proof (intro allI impI)
    fix r
    assume y: "y = Inr r"
    show "(\<bar>err\<bar> \<le> 0.001 \<and> tE = Some r)
         \<or> (\<exists>s t1. stress = Some s \<and> t1 \<noteq> 0 \<and> hp_tE s d l t1 = Inr r
                \<and> \<bar>(t1 - r) / t1\<bar> \<le> 0.001)"
    proof (cases "\<bar>err\<bar> > 0.001")
      case False
      then show ?thesis using 1(2) y by (auto split: option.splits)
    next
      case True
      then obtain s t' where s: "stress = Some s" and t': "hp_tE s d l t = Inr t'"
        and t: "t \<noteq> 0" and rec: "hp stress d l t' ((t - t') / t) (Some t') = Some y"
        using 1(2) y by (auto simp: py_div_def split: option.splits sum.splits if_splits)
      from 1(1) [OF rec] y
      have "(\<bar>(t - t') / t\<bar> \<le> 0.001 \<and> Some t' = Some r)
         \<or> (\<exists>s t1. stress = Some s \<and> t1 \<noteq> 0 \<and> hp_tE s d l t1 = Inr r
                \<and> \<bar>(t1 - r) / t1\<bar> \<le> 0.001)" by blast
      then show ?thesis using s t' t by auto
    qed
  qed
qed

lemma hp_while_returns_converged:
  assumes "hp_while stress diameter tangent_tangent_length 0.25 1 None = Some (Inr r)"
  shows "\<exists>s t1. stress = Some s \<and> t1 \<noteq> 0 \<and> hp_tE s diameter tangent_tangent_length t1 = Inr r
                \<and> \<bar>(t1 - r) / t1\<bar> \<le> 0.001"
  using hp_while_returns_converged_aux [OF assms] by simp

subsection \<open>The loop of the branch \<open>lowest_pressure <= 101\<close>\<close>

lemma lp_while_exit:
  "\<not> exceeds_tolerance err \<Longrightarrow>
     lp_while numpy dp E diameter tangent_tangent_length tE1 err (Some t) = Some (Inr t)"
  by (subst lp_while.simps) simp

lemma lp_while_step:
  assumes "exceeds_tolerance err"
    and "lp_tE numpy dp E diameter tangent_tangent_length tE1 = Inr tE'"
    and "float_quotient numpy (tE1 - tE') tE1 = Inr err'"
  shows "lp_while numpy dp E diameter tangent_tangent_length tE1 err tE =
           lp_while numpy dp E diameter tangent_tangent_length tE' err' (Some tE')"
  using assms by (subst lp_while.simps) simp

subsection \<open>When the loops return\<close>







subsection \<open>When the loops raise\<close>







subsection \<open>Bounds on single updates\<close>

lemma hp_tE_band:
  assumes "0 < s" and "0 < u" and "u = diameter * m_to_inch + t"
    and "n = 0.22 * (u + 18) * (tangent_tangent_length * m_to_inch)\<^sup>2"
    and "lo * (s * (u * u)) \<le> n" and "n \<le> hi * (s * (u * u))"
  shows "\<exists>t'. hp_tE s diameter tangent_tangent_length t = Inr t' \<and> lo \<le> t' \<and> t' \<le> hi"
proof -
  have d: "0 < s * (u * u)" using assms(1,2) by simp
  have "s \<noteq> 0" "diameter * m_to_inch + t \<noteq> 0" using assms(1,2,3) by simp_all
  then have "hp_tE s diameter tangent_tangent_length t = Inr (n / (s * (u * u)))"
    unfolding hp_tE_def py_div_def assms(3,4) power2_eq_square by simp
  moreover have "lo \<le> n / (s * (u * u))" using d assms(5) by (simp add: pos_le_divide_eq)
  moreover have "n / (s * (u * u)) \<le> hi" using d assms(6) by (simp add: pos_divide_le_eq)
  ultimately show ?thesis by blast
qed




text \<open>Diameter 1 m, length 5 m, stress 15000: the loop returns after three passes.\<close>

lemma stocky_first:
  "\<exists>t'. hp_tE 15000 1 5 0.25 = Inr t' \<and> 0.0208 \<le> t' \<and> t' \<le> 0.0209"
  by (rule hp_tE_band [OF _ _ refl refl]) (simp_all add: m_to_inch_def power2_eq_square)

lemma stocky_next:
  assumes "0.0208 \<le> t" and "t \<le> 0.0211"
  shows "\<exists>t'. hp_tE 15000 1 5 t = Inr t' \<and> 0.02102 \<le> t' \<and> t' \<le> 0.021022"
proof (rule hp_tE_band [OF _ _ refl refl])
  define u where "u = 1 * m_to_inch + t"
  have un: "393909 \<le> 10000 * u" "10000 * u \<le> 393912"
    using assms by (simp_all add: u_def m_to_inch_def)
  then have pos: "0 < u" by simp
  have sq1: "10000 * (u * u) \<le> 393912 * u" using un pos by simp
  have sq2: "393909 * u \<le> 10000 * (u * u)" using un pos by simp
  show "(0::real) < 15000" by simp
  show "0 < 1 * m_to_inch + t" using pos by (simp add: u_def)
  show "0.02102 * (15000 * ((1 * m_to_inch + t) * (1 * m_to_inch + t)))
          \<le> 0.22 * (1 * m_to_inch + t + 18) * (5 * m_to_inch)\<^sup>2"
    unfolding u_def [symmetric]
    apply (simp add: m_to_inch_def power2_eq_square)
    apply (insert sq1 un)
    apply linarith
    done
  show "0.22 * (1 * m_to_inch + t + 18) * (5 * m_to_inch)\<^sup>2
          \<le> 0.021022 * (15000 * ((1 * m_to_inch + t) * (1 * m_to_inch + t)))"
    unfolding u_def [symmetric]
    apply (simp add: m_to_inch_def power2_eq_square)
    apply (insert sq2 un)
    apply linarith
    done
qed

lemma stocky_run:
  "\<exists>tE. hp_while (Some 15000) 1 5 0.25 1 None = Some (Inr tE) \<and> 0.02102 \<le> tE \<and> tE \<le> 0.021022"
proof -
  obtain t1 where t1: "hp_tE 15000 1 5 0.25 = Inr t1" and b1: "0.0208 \<le> t1" "t1 \<le> 0.0209"
    using stocky_first by blast
  obtain t2 where t2: "hp_tE 15000 1 5 t1 = Inr t2" and b2: "0.02102 \<le> t2" "t2 \<le> 0.021022"
    using stocky_next [of t1] b1 by auto
  obtain t3 where t3: "hp_tE 15000 1 5 t2 = Inr t3" and b3: "0.02102 \<le> t3" "t3 \<le> 0.021022"
    using stocky_next [of t2] b2 by auto
  have e1: "\<bar>(0.25 - t1) / 0.25\<bar> > 0.001" using b1 by simp
  have "t1 * 1.001 < t2" using b1 b2 by simp
  then have "(t1 - t2) / t1 < - 0.001" using b1 by (simp add: field_simps)
  then have e2: "\<bar>(t1 - t2) / t1\<bar> > 0.001" by linarith
  have "t2 - t3 \<le> t2 * 0.001" "t3 - t2 \<le> t2 * 0.001" using b2 b3 by simp_all
  then have "(t2 - t3) / t2 \<le> 0.001" "- 0.001 \<le> (t2 - t3) / t2"
    using b2 by (simp_all add: field_simps)
  then have e3: "\<bar>(t2 - t3) / t2\<bar> \<le> 0.001" by linarith
  have "hp_while (Some 15000) 1 5 0.25 1 None
          = hp_while (Some 15000) 1 5 t1 ((0.25 - t1) / 0.25) (Some t1)"
    by (rule hp_while_step [OF _ t1]) simp_all
  also have "\<dots> = hp_while (Some 15000) 1 5 t2 ((t1 - t2) / t1) (Some t2)"
    using b1 by (intro hp_while_step [OF e1 t2]) simp
  also have "\<dots> = hp_while (Some 15000) 1 5 t3 ((t2 - t3) / t2) (Some t3)"
    using b2 by (intro hp_while_step [OF e2 t3]) simp
  also have "\<dots> = Some (Inr t3)" by (rule hp_while_exit [OF e3])
  finally show ?thesis using b3 by blast
qed

text \<open>
  Design pressure 10 psig, modulus 26.0e6, diameter 1 m, length 4.295 m: the first update
  is already within the tolerance of the initial guess.
\<close>

lemma powr_two_fifths_band:
  fixes q :: real
  assumes "0 < q" and "0 \<le> a" and "a ^ 5 \<le> q\<^sup>2" and "q\<^sup>2 \<le> b ^ 5" and "0 \<le> b"
  shows "a \<le> q powr 0.4 \<and> q powr 0.4 \<le> b"
proof -
  have q: "q powr 0.4 = (q\<^sup>2) powr (1 / 5)"
  proof -
    have "(q\<^sup>2) powr (1 / 5) = (q powr 2) powr (1 / 5)" using assms(1) by simp
    also have "\<dots> = q powr (2 * (1 / 5))" by (rule powr_powr)
    finally show ?thesis by simp
  qed
  have root: "(c ^ 5) powr (1 / 5) = c" if "0 \<le> c" for c :: real
  proof -
    have "(c ^ 5) powr (1 / 5) = (c powr 5) powr (1 / 5)" using that by simp
    also have "\<dots> = c powr (5 * (1 / 5))" by (rule powr_powr)
    also have "\<dots> = c" using that by simp
    finally show ?thesis .
  qed
  have "(a ^ 5) powr (1 / 5) \<le> (q\<^sup>2) powr (1 / 5)"
    using assms(2,3) by (intro powr_mono2) simp_all
  moreover have "(q\<^sup>2) powr (1 / 5) \<le> (b ^ 5) powr (1 / 5)"
    using assms(4) by (intro powr_mono2) simp_all
  ultimately show ?thesis using root [OF assms(2)] root [OF assms(5)] q by simp
qed

lemma lp_example_step:
  "\<exists>t'. lp_tE False 10 26000000 1 4.295 0.25 = Inr t'
     \<and> t' = 1.3 * (1 * m_to_inch + 0.25)
              * (10 * (4.295 * m_to_inch) / (26000000 * (1 * m_to_inch + 0.25))) powr 0.4
     \<and> 0.2499 \<le> t' \<and> t' \<le> 0.2501"
proof -
  define q :: real where "q = 10 * (4.295 * m_to_inch) / (26000000 * (1 * m_to_inch + 0.25))"
  have q: "0 < q" by (simp add: q_def m_to_inch_def)
  have "(0.0048536::real) ^ 5 \<le> q\<^sup>2"
    by (simp add: q_def m_to_inch_def power2_eq_square power_divide)
  moreover have "q\<^sup>2 \<le> (0.004854::real) ^ 5"
    by (simp add: q_def m_to_inch_def power2_eq_square power_divide)
  ultimately have b: "0.0048536 \<le> q powr 0.4" "q powr 0.4 \<le> 0.004854"
    using powr_two_fifths_band [OF q, of "0.0048536" "0.004854"] by simp_all
  have "lp_tE False 10 26000000 1 4.295 0.25 = Inr (1.3 * (1 * m_to_inch + 0.25) * q powr 0.4)"
    using q unfolding lp_tE_def float_div_def float_quotient_def py_pow_def bind_r_def q_def
    by (simp add: m_to_inch_def)
  moreover have "0.2499 \<le> 1.3 * (1 * m_to_inch + 0.25) * q powr 0.4"
    using b(1) by (simp add: m_to_inch_def)
  moreover have "1.3 * (1 * m_to_inch + 0.25) * q powr 0.4 \<le> 0.2501"
    using b(2) by (simp add: m_to_inch_def)
  ultimately show ?thesis unfolding q_def by blast
qed

lemma lp_example_run:
  "\<exists>tE. lp_while False 10 26000000 1 4.295 0.25 (Finite 1) None = Some (Inr tE)
     \<and> tE = 1.3 * (1 * m_to_inch + 0.25)
              * (10 * (4.295 * m_to_inch) / (26000000 * (1 * m_to_inch + 0.25))) powr 0.4
     \<and> 0.2499 \<le> tE \<and> tE \<le> 0.2501"
proof -
  obtain t1 where t1: "lp_tE False 10 26000000 1 4.295 0.25 = Inr t1"
    and v: "t1 = 1.3 * (1 * m_to_inch + 0.25)
              * (10 * (4.295 * m_to_inch) / (26000000 * (1 * m_to_inch + 0.25))) powr 0.4"
    and b: "0.2499 \<le> t1" "t1 \<le> 0.2501"
    using lp_example_step by blast
  have "(0.25 - t1) / 0.25 \<le> 0.001" "- ((0.25 - t1) / 0.25) \<le> 0.001" using b by simp_all
  then have "\<bar>(0.25 - t1) / 0.25\<bar> \<le> 0.001" by (rule abs_leI)
  then have e: "\<not> exceeds_tolerance (Finite ((0.25 - t1) / 0.25))"
    unfolding exceeds_tolerance_def by (simp only: float_value.case not_less)
  have s: "exceeds_tolerance (Finite 1)" by (simp add: exceeds_tolerance_def)
  have d: "float_quotient False (0.25 - t1) 0.25 = Inr (Finite ((0.25 - t1) / 0.25))"
    unfolding float_quotient_def by simp
  have "lp_while False 10 26000000 1 4.295 0.25 (Finite 1) None
          = lp_while False 10 26000000 1 4.295 t1 (Finite ((0.25 - t1) / 0.25)) (Some t1)"
    by (rule lp_while_step [OF s t1 d])
  also have "\<dots> = Some (Inr t1)" by (rule lp_while_exit [OF e])
  finally show ?thesis using v b by blast
qed

subsection \<open>Long runs of the loop of the branch \<open>lowest_pressure <= 101\<close>\<close>






subsection \<open>Design pressure\<close>

lemma exp_8_lower: "(1001::real) \<le> exp 8"
proof -
  have "(2.5::real) \<le> exp 1" using exp_lower_Taylor_quadratic [of "1::real"] by simp
  then have "(2.5::real) ^ 8 \<le> exp 1 ^ 8" by (intro power_mono) simp_all
  also have "\<dots> = exp (8::real)" using exp_of_nat_mult [of 8 "1::real"] by simp
  finally show ?thesis by (simp add: power_divide)
qed

lemma exp_9_upper: "exp (9::real) \<le> 19683"
proof -
  have "exp (9::real) = exp 1 ^ 9" using exp_of_nat_mult [of 9 "1::real"] by simp
  also have "\<dots> \<le> 3 ^ 9" using exp_le by (intro power_mono) simp_all
  finally show ?thesis by simp
qed

lemma design_pressure_correlation_bounds:
  assumes "34.5 < lowest_pressure" and "lowest_pressure \<le> 6895"
  shows "\<exists>dp. design_pressure lowest_pressure = Some dp \<and> 0 < dp \<and> dp \<le> 19683"
proof -
  define x where "x = ln (lowest_pressure * kPa_to_psig)"
  have pk: "1 \<le> lowest_pressure * kPa_to_psig" "lowest_pressure * kPa_to_psig \<le> 1001"
    using assms by (simp_all add: kPa_to_psig_def)
  have x0: "0 \<le> x" using pk(1) by (simp add: x_def)
  have "ln (lowest_pressure * kPa_to_psig) \<le> ln (exp 8)"
    using pk exp_8_lower by (intro ln_mono) simp_all
  then have x8: "x \<le> 8" by (simp add: x_def)
  have "x * x \<le> 8 * 8" using x0 x8 by (intro mult_mono) simp_all
  then have "0.60608 + 0.91615 * x + 0.0015655 * x\<^sup>2 \<le> 9"
    using x8 by (simp add: power2_eq_square)
  then have "exp (0.60608 + 0.91615 * x + 0.0015655 * x\<^sup>2) \<le> exp 9" by simp
  then have "exp (0.60608 + 0.91615 * x + 0.0015655 * x\<^sup>2) \<le> 19683"
    using exp_9_upper by linarith
  moreover have "design_pressure lowest_pressure
                   = Some (exp (0.60608 + 0.91615 * x + 0.0015655 * x\<^sup>2))"
    using assms by (simp add: design_pressure_def x_def)
  ultimately show ?thesis by simp
qed

subsection \<open>The whole calculation\<close>

lemma bind_run_Some_Inr: "bind_run (Some (Inr v)) f = f v"
  by (simp add: bind_run_def)


lemma bind_run_Inl: "bind_run (Some (Inl e)) f = Some (Inl e)"
  by (simp add: bind_run_def)

lemma bind_run_eq_Inr:
  "bind_run m f = Some (Inr w) \<longleftrightarrow> (\<exists>v. m = Some (Inr v) \<and> f v = Some (Inr w))"
  by (auto simp: bind_run_def split: option.splits sum.splits)

lemma wall_thickness_high_branch:
  assumes "lowest_pressure \<ge> 101"
    and "design_pressure lowest_pressure = Some p"
    and "allowable_stress (design_temp highest_temp) = Some s"
    and "hp_while (Some s) diameter tangent_tangent_length 0.25 1 None = Some (Inr tE)"
    and "2 * s - 1.2 * p \<noteq> 0"
  shows "wall_thickness lowest_pressure highest_temp diameter tangent_tangent_length =
           Some (Inr ((p * (diameter * m_to_inch) / (2 * s - 1.2 * p) + tE
                        + p * (diameter * m_to_inch) / (2 * s - 1.2 * p)) / 2))"
  unfolding wall_thickness_def Let_def
  using assms by (simp add: bind_run_def float_div_def float_quotient_def bind_r_def)

lemma wall_thickness_low_branch:
  assumes "lowest_pressure < 101"
    and "design_pressure lowest_pressure = Some p"
    and "lp_while (design_pressure_is_numpy lowest_pressure) p (E_modulus (design_temp highest_temp))
           diameter tangent_tangent_length 0.25 (Finite 1) None = Some (Inr tE)"
    and "diameter \<noteq> 0 \<or> design_pressure_is_numpy lowest_pressure"
  shows "wall_thickness lowest_pressure highest_temp diameter tangent_tangent_length =
           Some (Inr (let tEC = (tangent_tangent_length * m_to_inch)
                              * (0.18 * (diameter * m_to_inch) - 2.2) * (1 / 10 ^ 5) - 0.19
                      in if tEC > 0 then tEC + tE + 0.125 else tE + 0.125))"
  unfolding wall_thickness_def Let_def
  using assms by (auto simp: bind_run_def float_quotient_def m_to_inch_def)

lemma weight_of_thickness:
  assumes "wall_thickness lowest_pressure highest_temp diameter tangent_tangent_length
             = Some (Inr t)"
  shows "vertical_vessels_weight lowest_pressure highest_temp diameter tangent_tangent_length
             material_density =
           Some (Inr (pi * max t 0.25 * (material_density * kg_m3_to_lb_in3)
                        * ((diameter * m_to_inch) + max t 0.25)
                        * ((tangent_tangent_length * m_to_inch) + 0.8 * (diameter * m_to_inch))
                        / kg_to_lb))"
proof -
  have m: "(if t < 0.25 then 0.25 else t) = max t 0.25" by (auto simp: max_def)
  show ?thesis
    unfolding vertical_vessels_weight_def assms bind_run_Some_Inr Let_def m ..
qed

lemma hot_low_pressure_thickness:
  "\<exists>t. wall_thickness 20 800 1 4.295 = Some (Inr t)
     \<and> t = 1.3 * (1 * m_to_inch + 0.25)
              * (10 * (4.295 * m_to_inch) / (26000000 * (1 * m_to_inch + 0.25))) powr 0.4 + 0.125
     \<and> 0.3749 \<le> t \<and> t \<le> 0.3751"
proof -
  obtain tE where run: "lp_while False 10 26000000 1 4.295 0.25 (Finite 1) None = Some (Inr tE)"
    and v: "tE = 1.3 * (1 * m_to_inch + 0.25)
              * (10 * (4.295 * m_to_inch) / (26000000 * (1 * m_to_inch + 0.25))) powr 0.4"
    and b: "0.2499 \<le> tE" "tE \<le> 0.2501"
    using lp_example_run by blast
  have dp: "design_pressure 20 = Some 10" by (simp add: design_pressure_def)
  have np: "design_pressure_is_numpy 20 = False" by (simp add: design_pressure_is_numpy_def)
  have E: "E_modulus (design_temp 800) = 26000000"
    by (simp add: design_temp_def E_modulus_def)
  have run': "lp_while (design_pressure_is_numpy 20) 10 (E_modulus (design_temp 800))
                1 4.295 0.25 (Finite 1) None = Some (Inr tE)"
    unfolding np E by (rule run)
  have tEC: "\<not> (4.295 * m_to_inch) * (0.18 * (1 * m_to_inch) - 2.2) * (1 / 10 ^ 5) - 0.19 > (0::real)"
    by (simp add: m_to_inch_def)
  have lt: "(20::real) < 101" and nz: "(1::real) \<noteq> 0 \<or> design_pressure_is_numpy 20"
    by simp_all
  have "wall_thickness 20 800 1 4.295 = Some (Inr (tE + 0.125))"
    unfolding wall_thickness_low_branch [OF lt dp run' nz] Let_def
    by (simp only: tEC if_False)
  moreover have "0.3749 \<le> tE + 0.125" "tE + 0.125 \<le> 0.3751" using b by simp_all
  ultimately show ?thesis using v by blast
qed

lemma hot_low_pressure_weight:
  "\<exists>t. t = 1.3 * (1 * m_to_inch + 0.25)
              * (10 * (4.295 * m_to_inch) / (26000000 * (1 * m_to_inch + 0.25))) powr 0.4 + 0.125
     \<and> vertical_vessels_weight 20 800 1 4.295 7850
         = Some (Inr (pi * t * (7850 * kg_m3_to_lb_in3) * ((1 * m_to_inch) + t)
                        * ((4.295 * m_to_inch) + 0.8 * (1 * m_to_inch)) / kg_to_lb))"
proof -
  obtain t where t: "wall_thickness 20 800 1 4.295 = Some (Inr t)"
    and v: "t = 1.3 * (1 * m_to_inch + 0.25)
              * (10 * (4.295 * m_to_inch) / (26000000 * (1 * m_to_inch + 0.25))) powr 0.4 + 0.125"
    and b: "0.3749 \<le> t"
    using hot_low_pressure_thickness by blast
  have m: "max t 0.25 = t" using b by simp
  show ?thesis using weight_of_thickness [OF t, of 7850] v unfolding m by blast
qed

text \<open>
  Length 0 with a \<open>numpy.float64\<close> design pressure: the first pass gives \<open>tE = 0\<close>, the
  second gives \<open>tE = 0\<close> again and the quotient \<open>0 / 0\<close>, which is \<open>nan\<close>; the loop
  ends, and the minimum thickness 0.25 gives the weight.
\<close>

lemma lp_tE_zero_length:
  assumes "E \<noteq> 0" and "m_to_inch + t \<noteq> 0"
  shows "lp_tE numpy dp E 1 0 t = Inr 0"
  using assms
  unfolding lp_tE_def float_div_def float_quotient_def py_pow_def bind_r_def
  by simp

lemma lp_zero_length_numpy:
  assumes "E \<noteq> 0"
  shows "lp_while True dp E 1 0 0.25 (Finite 1) None = Some (Inr 0)"
proof -
  have s: "exceeds_tolerance (Finite 1)" by (simp add: exceeds_tolerance_def)
  have n: "\<not> exceeds_tolerance NotANumber" by (simp add: exceeds_tolerance_def)
  have 1: "lp_tE True dp E 1 0 0.25 = Inr 0"
    by (rule lp_tE_zero_length [OF assms]) (simp add: m_to_inch_def)
  have 2: "lp_tE True dp E 1 0 0 = Inr 0"
    by (rule lp_tE_zero_length [OF assms]) (simp add: m_to_inch_def)
  have q1: "float_quotient True (0.25 - 0) 0.25 = Inr (Finite 1)"
    by (simp add: float_quotient_def)
  have q2: "float_quotient True (0 - 0) 0 = Inr NotANumber"
    by (simp add: float_quotient_def)
  have "lp_while True dp E 1 0 0.25 (Finite 1) None = lp_while True dp E 1 0 0 (Finite 1) (Some 0)"
    by (rule lp_while_step [OF s 1 q1])
  also have "\<dots> = lp_while True dp E 1 0 0 NotANumber (Some 0)"
    by (rule lp_while_step [OF s 2 q2])
  also have "\<dots> = Some (Inr 0)" by (rule lp_while_exit [OF n])
  finally show ?thesis .
qed

lemma zero_length_vessel_weight:
  "vertical_vessels_weight 50 400 1 0 7850
     = Some (Inr (pi * 0.25 * (7850 * kg_m3_to_lb_in3) * ((1 * m_to_inch) + 0.25)
                    * ((0 * m_to_inch) + 0.8 * (1 * m_to_inch)) / kg_to_lb))"
proof -
  obtain p where dp: "design_pressure 50 = Some p" by (simp add: design_pressure_def)
  have np: "design_pressure_is_numpy 50 = True" by (simp add: design_pressure_is_numpy_def)
  have E: "E_modulus (design_temp 400) \<noteq> 0" by (simp add: design_temp_def E_modulus_def)
  have run: "lp_while (design_pressure_is_numpy 50) p (E_modulus (design_temp 400))
                1 0 0.25 (Finite 1) None = Some (Inr 0)"
    unfolding np by (rule lp_zero_length_numpy [OF E])
  have lt: "(50::real) < 101" and nz: "(1::real) \<noteq> 0 \<or> design_pressure_is_numpy 50"
    by simp_all
  have "wall_thickness 50 400 1 0 = Some (Inr 0.125)"
    unfolding wall_thickness_low_branch [OF lt dp run nz] Let_def by simp
  from weight_of_thickness [OF this, of 7850] show ?thesis by simp
qed

lemma wall_thickness_unbound_stress:
  assumes "design_temp highest_temp > 900" and "lowest_pressure \<ge> 101"
  shows "wall_thickness lowest_pressure highest_temp diameter tangent_tangent_length
           = Some (Inl (UnboundLocalError ''allowable_stress''))"
proof -
  have "allowable_stress (design_temp highest_temp) = None"
    using assms(1) by (simp add: allowable_stress_def)
  then show ?thesis
    unfolding wall_thickness_def Let_def using assms(2)
    by (simp add: hp_while_unbound_stress bind_run_Inl)
qed

lemma wall_thickness_low_pressure_temp:
  assumes "lowest_pressure < 101" and "design_temp T1 \<ge> 650" and "design_temp T2 \<ge> 650"
  shows "wall_thickness lowest_pressure T1 diameter tangent_tangent_length
           = wall_thickness lowest_pressure T2 diameter tangent_tangent_length"
proof -
  have E: "E_modulus (design_temp T1) = E_modulus (design_temp T2)"
    using assms(2,3) by (simp add: E_modulus_def)
  have p: "\<not> lowest_pressure \<ge> 101" using assms(1) by simp
  show ?thesis
    unfolding wall_thickness_def Let_def E
    by (simp only: p if_False)
qed


lemma allowable_stress_ge: "allowable_stress dt = Some s \<Longrightarrow> 13100 \<le> s"
  by (auto simp: allowable_stress_def split: if_splits)

lemma wall_thickness_high_iff:
  assumes "lowest_pressure \<ge> 101" and "design_pressure lowest_pressure = Some dp"
    and "1.2 * dp < 26200"
  shows "wall_thickness lowest_pressure highest_temp diameter tangent_tangent_length = Some (Inr t)
     \<longleftrightarrow> (\<exists>s tE. allowable_stress (design_temp highest_temp) = Some s
            \<and> hp_while (Some s) diameter tangent_tangent_length 0.25 1 None = Some (Inr tE)
            \<and> t = (2 * (dp * (diameter * m_to_inch) / (2 * s - 1.2 * dp)) + tE) / 2)"
proof
  assume w: "wall_thickness lowest_pressure highest_temp diameter tangent_tangent_length
               = Some (Inr t)"
  then obtain tE where run: "hp_while (allowable_stress (design_temp highest_temp)) diameter
      tangent_tangent_length 0.25 1 None = Some (Inr tE)"
    unfolding wall_thickness_def Let_def using assms(1)
    by (auto simp: bind_run_eq_Inr)
  then obtain s where s: "allowable_stress (design_temp highest_temp) = Some s"
    using hp_while_returns_converged [OF run] by blast
  have nz: "2 * s - 1.2 * dp \<noteq> 0" using allowable_stress_ge [OF s] assms(3) by simp
  have "wall_thickness lowest_pressure highest_temp diameter tangent_tangent_length =
           Some (Inr ((dp * (diameter * m_to_inch) / (2 * s - 1.2 * dp) + tE
                        + dp * (diameter * m_to_inch) / (2 * s - 1.2 * dp)) / 2))"
    using run unfolding s by (intro wall_thickness_high_branch [OF assms(1,2) s _ nz])
  then have "t = (2 * (dp * (diameter * m_to_inch) / (2 * s - 1.2 * dp)) + tE) / 2"
    using w by simp
  then show "\<exists>s tE. allowable_stress (design_temp highest_temp) = Some s
            \<and> hp_while (Some s) diameter tangent_tangent_length 0.25 1 None = Some (Inr tE)
            \<and> t = (2 * (dp * (diameter * m_to_inch) / (2 * s - 1.2 * dp)) + tE) / 2"
    using s run by auto
next
  assume "\<exists>s tE. allowable_stress (design_temp highest_temp) = Some s
            \<and> hp_while (Some s) diameter tangent_tangent_length 0.25 1 None = Some (Inr tE)
            \<and> t = (2 * (dp * (diameter * m_to_inch) / (2 * s - 1.2 * dp)) + tE) / 2"
  then obtain s tE where s: "allowable_stress (design_temp highest_temp) = Some s"
    and run: "hp_while (Some s) diameter tangent_tangent_length 0.25 1 None = Some (Inr tE)"
    and t: "t = (2 * (dp * (diameter * m_to_inch) / (2 * s - 1.2 * dp)) + tE) / 2"
    by blast
  have nz: "2 * s - 1.2 * dp \<noteq> 0" using allowable_stress_ge [OF s] assms(3) by simp
  show "wall_thickness lowest_pressure highest_temp diameter tangent_tangent_length = Some (Inr t)"
    unfolding wall_thickness_high_branch [OF assms(1,2) s run nz] t by simp
qed

lemma allowable_stress_400: "allowable_stress (design_temp 400) = Some 15000"
  by (simp add: allowable_stress_def design_temp_def)

subsection \<open>The correlation at 6895 kPa is not the 1.1 rule\<close>

lemma ln_boundary_upper: "ln (6895 * kPa_to_psig) \<le> 6.944"
proof -
  have "(1.1143::real) \<le> exp 0.1085"
    using exp_lower_Taylor_quadratic [of "0.1085::real"] by (simp add: power2_eq_square)
  then have "(1.1143::real) ^ 64 \<le> exp 0.1085 ^ 64" by (intro power_mono) simp_all
  also have "\<dots> = exp (6.944::real)" using exp_of_nat_mult [of 64 "0.1085::real"] by simp
  finally have "6895 * kPa_to_psig \<le> exp (6.944::real)"
    by (simp add: kPa_to_psig_def power_divide)
  then have "ln (6895 * kPa_to_psig) \<le> ln (exp (6.944::real))"
    by (intro ln_mono) (simp_all add: kPa_to_psig_def)
  then show ?thesis by simp
qed

lemma correlation_above_rule_at_boundary:
  "1.1 * 6895 * kPa_to_psig
     < exp (0.60608 + 0.91615 * ln (6895 * kPa_to_psig)
            + 0.0015655 * (ln (6895 * kPa_to_psig))\<^sup>2)"
proof -
  define x where "x = ln (6895 * kPa_to_psig)"
  define f where "f = 0.60608 - 0.08385 * x + 0.0015655 * x\<^sup>2"
  have x0: "0 \<le> x" unfolding x_def by (simp add: kPa_to_psig_def)
  have x1: "x \<le> 6.944" unfolding x_def by (rule ln_boundary_upper)
  have "0 \<le> (6.944 - x) * (0.08385 - 0.0015655 * (x + 6.944))"
    using x0 x1 by (intro mult_nonneg_nonneg) simp_all
  moreover have "(6.944 - x) * (0.08385 - 0.0015655 * (x + 6.944))
                   = f - (0.60608 - 0.08385 * 6.944 + 0.0015655 * 6.944 * 6.944)"
    unfolding f_def power2_eq_square by (simp add: field_simps)
  ultimately have "0.60608 - 0.08385 * 6.944 + 0.0015655 * 6.944 * 6.944 \<le> f" by simp
  then have f: "0.0985 \<le> f" by simp
  have "(1.1::real) < exp 0.0985"
    using exp_lower_Taylor_quadratic [of "0.0985::real"] by (simp add: power2_eq_square)
  also have "\<dots> \<le> exp f" using f by simp
  finally have g: "1.1 < exp f" .
  have ex: "exp x = 6895 * kPa_to_psig" unfolding x_def by (simp add: kPa_to_psig_def)
  have "0.60608 + 0.91615 * x + 0.0015655 * x\<^sup>2 = x + f" by (simp add: f_def)
  then have "exp (0.60608 + 0.91615 * x + 0.0015655 * x\<^sup>2) = exp x * exp f"
    by (simp add: exp_add)
  moreover have "1.1 * (6895 * kPa_to_psig) < (6895 * kPa_to_psig) * exp f"
    using g by (simp add: kPa_to_psig_def)
  ultimately show ?thesis unfolding x_def [symmetric] ex by (simp add: mult.assoc)
qed

section \<open>Properties of the vessel weight\<close>

text \<open>
  Claim C1, as stated, fails: at 20 kPa and 800 K the design temperature is 1030.33 F, above
  900, and the function still returns a weight for a vessel of diameter 1 m and length
  4.295 m (about 1208 kg: the first pass of the loop gives a thickness within the tolerance
  of the initial guess 0.25, and the corrosion allowance 0.125 is added). The allowable
  stress is only read in the branch \<open>lowest_pressure >= 101\<close>.
\<close>

theorem hot_vessel_at_low_pressure_returns_weight:
  "design_temp 800 > 900
   \<and> vertical_vessels_weight 20 800 1 4.295 7850
       = Some (Inr (pi
           * (1.3 * (1 * m_to_inch + 0.25)
                * (10 * (4.295 * m_to_inch) / (26000000 * (1 * m_to_inch + 0.25))) powr 0.4
              + 0.125)
           * (7850 * kg_m3_to_lb_in3)
           * ((1 * m_to_inch)
              + (1.3 * (1 * m_to_inch + 0.25)
                   * (10 * (4.295 * m_to_inch) / (26000000 * (1 * m_to_inch + 0.25))) powr 0.4
                 + 0.125))
           * ((4.295 * m_to_inch) + 0.8 * (1 * m_to_inch)) / kg_to_lb))"
proof -
  have "design_temp 800 > 900" by (simp add: design_temp_def)
  moreover obtain t where "t = 1.3 * (1 * m_to_inch + 0.25)
              * (10 * (4.295 * m_to_inch) / (26000000 * (1 * m_to_inch + 0.25))) powr 0.4 + 0.125"
    and "vertical_vessels_weight 20 800 1 4.295 7850
         = Some (Inr (pi * t * (7850 * kg_m3_to_lb_in3) * ((1 * m_to_inch) + t)
                        * ((4.295 * m_to_inch) + 0.8 * (1 * m_to_inch)) / kg_to_lb))"
    using hot_low_pressure_weight by blast
  ultimately show ?thesis by blast
qed

text \<open>
  Claim C1, amended. With a design temperature above 900 F and
  \<open>lowest_pressure >= 101\<close> the function raises (the name \<open>allowable_stress\<close> was
  never assigned) and returns no weight. With \<open>lowest_pressure < 101\<close> the allowable
  stress is never read: the run is the same as at any other design temperature of 650 F
  or more.
\<close>

theorem design_temp_above_900:
  assumes "design_temp highest_temp > 900"
  shows "(lowest_pressure \<ge> 101 \<longrightarrow>
            vertical_vessels_weight lowest_pressure highest_temp diameter tangent_tangent_length
                material_density = Some (Inl (UnboundLocalError ''allowable_stress'')))
       \<and> (lowest_pressure < 101 \<longrightarrow>
            (\<forall>T. design_temp T \<ge> 650 \<longrightarrow>
               vertical_vessels_weight lowest_pressure highest_temp diameter
                   tangent_tangent_length material_density
                 = vertical_vessels_weight lowest_pressure T diameter tangent_tangent_length
                     material_density))"
proof (intro conjI impI allI)
  assume "lowest_pressure \<ge> 101"
  then show "vertical_vessels_weight lowest_pressure highest_temp diameter tangent_tangent_length
                material_density = Some (Inl (UnboundLocalError ''allowable_stress''))"
    unfolding vertical_vessels_weight_def
    by (simp add: wall_thickness_unbound_stress [OF assms] bind_run_Inl)
next
  fix T
  assume p: "lowest_pressure < 101" and T: "design_temp T \<ge> 650"
  have "design_temp highest_temp \<ge> 650" using assms by simp
  then show "vertical_vessels_weight lowest_pressure highest_temp diameter
                   tangent_tangent_length material_density
                 = vertical_vessels_weight lowest_pressure T diameter tangent_tangent_length
                     material_density"
    unfolding vertical_vessels_weight_def
    by (simp only: wall_thickness_low_pressure_temp [OF p _ T])
qed

theorem design_temp_above_900_witness:
  "design_temp 800 > 900 \<and> (200::real) \<ge> 101
   \<and> vertical_vessels_weight 200 800 1 5 7850 = Some (Inl (UnboundLocalError ''allowable_stress''))
   \<and> (20::real) < 101 \<and> design_temp 700 \<ge> 650
   \<and> vertical_vessels_weight 20 800 1 4.295 7850 = vertical_vessels_weight 20 700 1 4.295 7850"
proof -
  have h: "design_temp 800 > 900" by (simp add: design_temp_def)
  have T: "design_temp 700 \<ge> 650" by (simp add: design_temp_def)
  have a: "(200::real) \<ge> 101" and b: "(20::real) < 101" by simp_all
  have 1: "vertical_vessels_weight 200 800 1 5 7850
             = Some (Inl (UnboundLocalError ''allowable_stress''))"
    using design_temp_above_900 [OF h, of 200 1 5 7850] a by (rule conjunct1 [THEN mp])
  have all: "\<forall>T. design_temp T \<ge> 650 \<longrightarrow>
          vertical_vessels_weight 20 800 1 4.295 7850 = vertical_vessels_weight 20 T 1 4.295 7850"
    using design_temp_above_900 [OF h, of 20 1 "4.295" 7850] b by (rule conjunct2 [THEN mp])
  have 2: "vertical_vessels_weight 20 800 1 4.295 7850
                  = vertical_vessels_weight 20 700 1 4.295 7850"
    by (rule all [rule_format, OF T])
  from h a 1 b T 2 show ?thesis by (intro conjI)
qed




text \<open>
  Claim C5. The function returns a weight exactly when lines 73 to 97 give a wall
  thickness, and the weight is then
  \<open>pi * t_total * (material_density * 0.000036127298147753) * (diameter * 39.3701 + t_total)
  * (tangent_tangent_length * 39.3701 + 0.8 * (diameter * 39.3701)) / 2.20462\<close>, where
  \<open>t_total\<close> is that thickness raised to the minimum 0.25: all lengths in inches, the
  density in pounds per cubic inch, and the result divided by the pounds in a kilogram.
\<close>

theorem vessel_weight_formula:
  "vertical_vessels_weight lowest_pressure highest_temp diameter tangent_tangent_length
       material_density = Some (Inr weight)
   \<longleftrightarrow> (\<exists>t. wall_thickness lowest_pressure highest_temp diameter tangent_tangent_length
               = Some (Inr t)
          \<and> weight = pi * max t 0.25 * (material_density * 0.000036127298147753)
                       * (diameter * 39.3701 + max t 0.25)
                       * (tangent_tangent_length * 39.3701 + 0.8 * (diameter * 39.3701))
                       / 2.20462)"
proof -
  have "vertical_vessels_weight lowest_pressure highest_temp diameter tangent_tangent_length
       material_density = Some (Inr weight)
   \<longleftrightarrow> (\<exists>t. wall_thickness lowest_pressure highest_temp diameter tangent_tangent_length
               = Some (Inr t)
          \<and> weight = pi * max t 0.25 * (material_density * kg_m3_to_lb_in3)
                       * ((diameter * m_to_inch) + max t 0.25)
                       * ((tangent_tangent_length * m_to_inch) + 0.8 * (diameter * m_to_inch))
                       / kg_to_lb)"
  proof
    assume w: "vertical_vessels_weight lowest_pressure highest_temp diameter
      tangent_tangent_length material_density = Some (Inr weight)"
    then obtain t where t: "wall_thickness lowest_pressure highest_temp diameter
      tangent_tangent_length = Some (Inr t)"
      unfolding vertical_vessels_weight_def bind_run_eq_Inr by blast
    show "\<exists>t. wall_thickness lowest_pressure highest_temp diameter tangent_tangent_length
               = Some (Inr t)
          \<and> weight = pi * max t 0.25 * (material_density * kg_m3_to_lb_in3)
                       * ((diameter * m_to_inch) + max t 0.25)
                       * ((tangent_tangent_length * m_to_inch) + 0.8 * (diameter * m_to_inch))
                       / kg_to_lb"
    proof (intro exI [of _ t] conjI)
      show "wall_thickness lowest_pressure highest_temp diameter tangent_tangent_length
              = Some (Inr t)" by (rule t)
      have "Some (Inr weight) = Some (Inr (pi * max t 0.25 * (material_density * kg_m3_to_lb_in3)
                       * ((diameter * m_to_inch) + max t 0.25)
                       * ((tangent_tangent_length * m_to_inch) + 0.8 * (diameter * m_to_inch))
                       / kg_to_lb) :: error + real)"
        unfolding w [symmetric] by (rule weight_of_thickness [OF t])
      then show "weight = pi * max t 0.25 * (material_density * kg_m3_to_lb_in3)
                       * ((diameter * m_to_inch) + max t 0.25)
                       * ((tangent_tangent_length * m_to_inch) + 0.8 * (diameter * m_to_inch))
                       / kg_to_lb"
        by (simp only: option.inject sum.inject)
    qed
  next
    assume "\<exists>t. wall_thickness lowest_pressure highest_temp diameter tangent_tangent_length
               = Some (Inr t)
          \<and> weight = pi * max t 0.25 * (material_density * kg_m3_to_lb_in3)
                       * ((diameter * m_to_inch) + max t 0.25)
                       * ((tangent_tangent_length * m_to_inch) + 0.8 * (diameter * m_to_inch))
                       / kg_to_lb"
    then obtain t where t: "wall_thickness lowest_pressure highest_temp diameter
        tangent_tangent_length = Some (Inr t)"
      and w: "weight = pi * max t 0.25 * (material_density * kg_m3_to_lb_in3)
                       * ((diameter * m_to_inch) + max t 0.25)
                       * ((tangent_tangent_length * m_to_inch) + 0.8 * (diameter * m_to_inch))
                       / kg_to_lb"
      by blast
    show "vertical_vessels_weight lowest_pressure highest_temp diameter
      tangent_tangent_length material_density = Some (Inr weight)"
      unfolding w by (rule weight_of_thickness [OF t])
  qed
  then show ?thesis
    unfolding kg_m3_to_lb_in3_def m_to_inch_def kg_to_lb_def .
qed

theorem vessel_weight_formula_witness:
  "\<exists>t w. wall_thickness 7000 400 1 5 = Some (Inr t)
     \<and> vertical_vessels_weight 7000 400 1 5 7850 = Some (Inr w)
     \<and> w = pi * max t 0.25 * (7850 * 0.000036127298147753) * (1 * 39.3701 + max t 0.25)
              * (5 * 39.3701 + 0.8 * (1 * 39.3701)) / 2.20462"
proof -
  obtain tE where run: "hp_while (Some 15000) 1 5 0.25 1 None = Some (Inr tE)"
    using stocky_run by blast
  have p: "(7000::real) \<ge> 101" by simp
  have dp: "design_pressure 7000 = Some (1.1 * 7000 * kPa_to_psig)"
    by (simp add: design_pressure_def)
  have nz: "2 * 15000 - 1.2 * (1.1 * 7000 * kPa_to_psig) \<noteq> 0"
    by (simp add: kPa_to_psig_def)
  note t = wall_thickness_high_branch [OF p dp allowable_stress_400 run nz]
  show ?thesis
    using t vessel_weight_formula [THEN iffD2, OF exI, OF conjI, OF t refl, of 7850]
    by blast
qed

text \<open>
  Claim C9. The conditionals are tried in the order of the source. At exactly 6895 kPa
  the test \<open>lowest_pressure <= 6895\<close> comes first, so the design pressure is the
  log-quadratic correlation, which is larger there than 1.1 times the pressure in psig.
  At exactly 101 kPa the test \<open>lowest_pressure >= 101\<close> comes first, so the wall
  thickness is \<open>(2 * tp + tE) / 2\<close>, with \<open>tE\<close> from the loop of lines 79 to 82 and
  \<open>tp = design_pressure * diameter / (2 * allowable_stress - 1.2 * design_pressure)\<close>
  (the diameter in inches), and the loop of the other branch is not run.
\<close>

theorem boundary_pressures_take_first_branch:
  "design_pressure 6895
     = Some (exp (0.60608 + 0.91615 * ln (6895 * kPa_to_psig)
                  + 0.0015655 * (ln (6895 * kPa_to_psig))\<^sup>2))
   \<and> design_pressure 6895 \<noteq> Some (1.1 * 6895 * kPa_to_psig)
   \<and> (\<forall>t. wall_thickness 101 highest_temp diameter tangent_tangent_length = Some (Inr t)
        \<longleftrightarrow> (\<exists>s tE dp. allowable_stress (design_temp highest_temp) = Some s
               \<and> design_pressure 101 = Some dp
               \<and> hp_while (Some s) diameter tangent_tangent_length 0.25 1 None = Some (Inr tE)
               \<and> t = (2 * (dp * (diameter * m_to_inch) / (2 * s - 1.2 * dp)) + tE) / 2))"
proof (intro conjI allI)
  show a: "design_pressure 6895
     = Some (exp (0.60608 + 0.91615 * ln (6895 * kPa_to_psig)
                  + 0.0015655 * (ln (6895 * kPa_to_psig))\<^sup>2))"
    by (simp add: design_pressure_def)
  show "design_pressure 6895 \<noteq> Some (1.1 * 6895 * kPa_to_psig)"
    unfolding a using correlation_above_rule_at_boundary by simp
next
  fix t
  obtain dp where dp: "design_pressure 101 = Some dp" and b: "dp \<le> 19683"
    using design_pressure_correlation_bounds [of 101] by auto
  have p: "(101::real) \<ge> 101" by simp
  have c: "1.2 * dp < 26200" using b by simp
  show "wall_thickness 101 highest_temp diameter tangent_tangent_length = Some (Inr t)
        \<longleftrightarrow> (\<exists>s tE dp. allowable_stress (design_temp highest_temp) = Some s
               \<and> design_pressure 101 = Some dp
               \<and> hp_while (Some s) diameter tangent_tangent_length 0.25 1 None = Some (Inr tE)
               \<and> t = (2 * (dp * (diameter * m_to_inch) / (2 * s - 1.2 * dp)) + tE) / 2)"
    unfolding wall_thickness_high_iff [OF p dp c] dp by auto
qed

theorem boundary_pressures_take_first_branch_witness:
  "\<exists>t s tE dp. wall_thickness 101 400 1 5 = Some (Inr t)
     \<and> allowable_stress (design_temp 400) = Some s
     \<and> design_pressure 101 = Some dp
     \<and> hp_while (Some s) 1 5 0.25 1 None = Some (Inr tE)
     \<and> t = (2 * (dp * (1 * m_to_inch) / (2 * s - 1.2 * dp)) + tE) / 2"
proof -
  obtain tE where run: "hp_while (Some 15000) 1 5 0.25 1 None = Some (Inr tE)"
    using stocky_run by blast
  obtain dp where dp: "design_pressure 101 = Some dp"
    using design_pressure_correlation_bounds [of 101] by auto
  define t where "t = (2 * (dp * (1 * m_to_inch) / (2 * 15000 - 1.2 * dp)) + tE) / 2"
  have ex: "\<exists>s tE dp. allowable_stress (design_temp 400) = Some s
               \<and> design_pressure 101 = Some dp
               \<and> hp_while (Some s) 1 5 0.25 1 None = Some (Inr tE)
               \<and> t = (2 * (dp * (1 * m_to_inch) / (2 * s - 1.2 * dp)) + tE) / 2"
    using allowable_stress_400 dp run t_def by blast
  have "wall_thickness 101 400 1 5 = Some (Inr t)"
    using boundary_pressures_take_first_branch [of 400 1 5, THEN conjunct2, THEN conjunct2,
        THEN spec, of t] ex
    by (rule iffD2)
  then show ?thesis using allowable_stress_400 dp run t_def by blast
qed

end
